theory Spec2Isabelle
  imports Complex_Main
begin

section \<open>Conventions of the embedding\<close>

text \<open>
  The two modules verified here are \<^verbatim>\<open>afternoonplan.py\<close> (class \<^verbatim>\<open>surveyPlan\<close>) and
  \<^verbatim>\<open>weather.py\<close> (class \<^verbatim>\<open>Weather\<close>).

  \<^item> A float64 quantity of the source (an MJD, an LST in degrees, a status held in an
    array made by \<^verbatim>\<open>np.zeros\<close>) is a \<open>real\<close>: the comparisons of the source are the
    comparisons of \<open>real\<close>, NaN and rounding are outside the model.
  \<^item> A numpy column is a list; the attributes of \<^verbatim>\<open>surveyPlan\<close> are parallel lists, as in
    the source.
  \<^item> A table (the FITS tile table, the observation log, the weather table) is the list
    of its rows.
  \<^item> Python strings are \<open>string\<close>.
  \<^item> The functions \<^verbatim>\<open>mjd2lst\<close> and \<^verbatim>\<open>radec2altaz\<close> come from \<^verbatim>\<open>surveysim.utils\<close>, which is
    not part of the sources at hand: every definition that calls them takes them as
    parameters, and every theorem holds for all of them.
  \<^item> Reading and writing FITS files is the boundary of the model: the constructor takes
    the parsed tile table, and \<open>afternoonPlan\<close> returns the plan list that the source
    hands to the table writer.
\<close>

section \<open>The nightly planner: \<^verbatim>\<open>afternoonplan.py\<close>\<close>

subsection \<open>Data\<close>

text \<open>One row of \<^verbatim>\<open>data/desi-tiles.fits\<close>, with the columns the constructor reads.\<close>

record tile_row =
  fld_TILEID :: int
  fld_RA :: real
  fld_DEC :: real
  fld_PASS :: int
  fld_IN_DESI :: int
  fld_EBV_MED :: real
  fld_AIRMASS :: real
  fld_EXPOSEFAC :: real
  fld_STAR_DENSITY :: real
  fld_PROGRAM :: string
  fld_OBSCONDITIONS :: int
  fld_OBSTIME :: real
  fld_HA :: real

text \<open>The dictionary \<^verbatim>\<open>day_stats\<close>, with the keys the planner reads.\<close>

record day_stats =
  MJDmoonrise :: real
  MJDmoonset :: real
  MJDetwi :: real
  MJDmtwi :: real
  MJDmidnight :: real
  MoonRA :: real
  MoonDEC :: real
  MoonFrac :: real
  dirName :: string

text \<open>One row of the observation log \<^verbatim>\<open>tiles_observed\<close>.\<close>

record obs_row =
  obs_TILEID :: int
  obs_STATUS :: real

text \<open>
  The attributes of a \<^verbatim>\<open>surveyPlan\<close> object. \<open>LST_dark_begin\<close> and \<open>LST_dark_end\<close> are the
  two attributes that only the last branch of \<^verbatim>\<open>getDarkTimes\<close> assigns; the constructor does
  not create them, so they are optional.
\<close>

record surveyPlan =
  tileID :: "int list"
  RA :: "real list"
  DEC :: "real list"
  Pass :: "int list"
  Ebmv :: "real list"
  maxExpLen :: "real list"
  starDensity :: "real list"
  program :: "string list"
  obsconds :: "int list"
  LSTmin :: "real list"
  LSTmax :: "real list"
  status :: "real list"
  priority :: "real list"
  moonUp :: string
  LST_dark1_begin :: real
  LST_dark1_end :: real
  LST_dark2_begin :: real
  LST_dark2_end :: real
  LST_dark_begin :: "real option"
  LST_dark_end :: "real option"

text \<open>One tuple of \<^verbatim>\<open>planList0\<close>, in the order of the source; \<open>pl_PRIORITY\<close> is item 7.\<close>

record plan_entry =
  pl_TILEID :: int
  pl_RA :: real
  pl_DEC :: real
  pl_EBV_MED :: real
  pl_LSTMIN :: real
  pl_LSTMAX :: real
  pl_MAXEXPLEN :: real
  pl_PRIORITY :: real
  pl_STATUS :: real
  pl_PROGRAM :: string
  pl_OBSCONDITIONS :: int

subsection \<open>The constructor\<close>

text \<open>\<^verbatim>\<open>a.compress(mask)\<close>: the elements of \<open>a\<close> where the mask holds.\<close>

definition compress :: "bool list \<Rightarrow> 'a list \<Rightarrow> 'a list" where
  "compress keep xs = map snd (filter fst (zip keep xs))"

text \<open>
  The body of the two wrapping loops (lines 61-65 and 67-71): one addition or one
  subtraction of 360, and nothing when the value is between 0 and 360, both included.
\<close>

definition wrap_lst :: "real \<Rightarrow> real" where
  "wrap_lst x = (if x < 0 then x + 360 else if x > 360 then x - 360 else x)"

text \<open>The priority of a declination (lines 77-93).\<close>

definition dec_priority :: "real \<Rightarrow> real" where
  "dec_priority dec =
     (if dec \<le> -15 then 1
      else if dec > -15 \<and> dec \<le> 0 then 2
      else if dec > 0 \<and> dec \<le> 15 then 3
      else if dec > 15 \<and> dec \<le> 30 then 4
      else if dec > 30 \<and> dec \<le> 45 then 5
      else if dec > 45 \<and> dec \<le> 60 then 6
      else if dec > 60 \<and> dec < 75 then 7
      else 8)"

definition surveyPlan_init :: "tile_row list \<Rightarrow> surveyPlan" where
  "surveyPlan_init tiledata =
     (let keep = map (\<lambda>r. fld_IN_DESI r = 1) tiledata;
          ra = compress keep (map fld_RA tiledata);
          dec = compress keep (map fld_DEC tiledata);
          tid = compress keep (map fld_TILEID tiledata);
          LST = map2 (+) ra (compress keep (map fld_HA tiledata))
      in \<lparr> tileID = tid,
           RA = ra,
           DEC = dec,
           Pass = compress keep (map fld_PASS tiledata),
           Ebmv = compress keep (map fld_EBV_MED tiledata),
           maxExpLen = map (\<lambda>t. 2 * t) (compress keep (map fld_OBSTIME tiledata)),
           starDensity = compress keep (map fld_STAR_DENSITY tiledata),
           program = compress keep (map fld_PROGRAM tiledata),
           obsconds = compress keep (map fld_OBSCONDITIONS tiledata),
           LSTmin = map (\<lambda>l. wrap_lst (l - 15)) LST,
           LSTmax = map (\<lambda>l. wrap_lst (l + 15)) LST,
           status = replicate (length tid) 0,
           priority = map dec_priority dec,
           moonUp = ''BRIGHT'',
           LST_dark1_begin = -1,
           LST_dark1_end = -1,
           LST_dark2_begin = -1,
           LST_dark2_end = -1,
           LST_dark_begin = None,
           LST_dark_end = None \<rparr>)"

subsection \<open>Darkness\<close>

definition isItDark :: "surveyPlan \<Rightarrow> real \<Rightarrow> string" where
  "isItDark self lst =
     (if (LST_dark1_begin self > 0 \<and> LST_dark1_begin self < lst \<and>
          LST_dark1_end self > 0 \<and> lst < LST_dark1_end self) \<or>
         (LST_dark2_begin self > 0 \<and> LST_dark2_begin self < lst \<and>
          LST_dark2_end self > 0 \<and> lst < LST_dark2_end self)
      then ''DARK''
      else moonUp self)"

text \<open>
  The first part of \<^verbatim>\<open>getDarkTimes\<close> (lines 116-151), with the conditions as the source
  writes them: each of the three tests on the moon reads \<^verbatim>\<open>MJDmoonrise\<close> twice.
\<close>

definition dark_windows :: "(real \<Rightarrow> real) \<Rightarrow> surveyPlan \<Rightarrow> day_stats \<Rightarrow> surveyPlan" where
  "dark_windows mjd2lst self0 ds =
     (let self = self0\<lparr>LST_dark2_begin := -1, LST_dark2_end := -1\<rparr> in
      if MJDmoonrise ds > 0 \<and> MJDmoonrise ds > 0 then
        (if MJDmoonrise ds < MJDetwi ds then
           (if MJDmoonset ds < MJDmtwi ds
            then self\<lparr>LST_dark1_begin := mjd2lst (MJDmoonset ds),
                      LST_dark1_end := mjd2lst (MJDmtwi ds)\<rparr>
            else self\<lparr>LST_dark1_begin := -1, LST_dark1_end := -1\<rparr>)
         else
           (let self1 = self\<lparr>LST_dark1_begin := mjd2lst (MJDetwi ds)\<rparr> in
            if MJDmoonrise ds < MJDmtwi ds then
              (let self2 = self1\<lparr>LST_dark1_end := mjd2lst (MJDmoonrise ds)\<rparr> in
               if MJDmoonset ds < MJDmtwi ds
               then self2\<lparr>LST_dark2_begin := mjd2lst (MJDmoonset ds),
                          LST_dark2_end := mjd2lst (MJDmtwi ds)\<rparr>
               else self2)
            else self1\<lparr>LST_dark1_end := mjd2lst (MJDmtwi ds)\<rparr>))
      else if MJDmoonrise ds > 0 \<and> MJDmoonrise ds < 0 then
        (if MJDmoonrise ds < MJDetwi ds
         then self\<lparr>LST_dark1_begin := -1, LST_dark1_end := -1\<rparr>
         else self\<lparr>LST_dark1_begin := MJDetwi ds,
                   LST_dark1_end := mjd2lst (MJDmoonrise ds)\<rparr>)
      else if MJDmoonrise ds < 0 \<and> MJDmoonrise ds > 0 then
        (if MJDmoonset ds > 0 \<and> MJDmoonset ds < MJDmtwi ds
         then self\<lparr>LST_dark1_begin := mjd2lst (MJDmoonset ds),
                   LST_dark1_end := mjd2lst (MJDmtwi ds)\<rparr>
         else self\<lparr>LST_dark1_begin := -1, LST_dark1_end := -1\<rparr>)
      else self\<lparr>LST_dark_begin := Some (mjd2lst (MJDetwi ds)),
                LST_dark_end := Some (mjd2lst (MJDmtwi ds))\<rparr>)"

text \<open>
  \<^verbatim>\<open>getDarkTimes\<close>: the windows, then the class of the rest of the night from the moon's
  altitude at local midnight (lines 154-158).
\<close>

definition getDarkTimes ::
  "(real \<Rightarrow> real) \<Rightarrow> (real \<Rightarrow> real \<Rightarrow> real \<Rightarrow> real \<times> real) \<Rightarrow> surveyPlan \<Rightarrow> day_stats \<Rightarrow> surveyPlan"
where
  "getDarkTimes mjd2lst radec2altaz self0 ds =
     (let self = dark_windows mjd2lst self0 ds;
          (alt, az) = radec2altaz (MoonRA ds) (MoonDEC ds) (mjd2lst (MJDmidnight ds))
      in if MoonFrac ds < 0.2 \<or> alt * MoonFrac ds < 12
         then self\<lparr>moonUp := ''GREY''\<rparr>
         else self\<lparr>moonUp := ''BRIGHT''\<rparr>)"

subsection \<open>The afternoon plan\<close>

text \<open>
  \<^verbatim>\<open>np.where(a == v)\<close>: the indices where the column holds \<open>v\<close>, in increasing order.
\<close>

definition np_where_eq :: "'a list \<Rightarrow> 'a \<Rightarrow> nat list" where
  "np_where_eq xs v = filter (\<lambda>i. xs ! i = v) [0..<length xs]"

text \<open>
  \<^verbatim>\<open>a[j] = v\<close> for an index array \<open>j\<close>. The indices the planner passes come from
  \<open>np_where_eq\<close> on \<open>tileID\<close>, which has the length of \<open>status\<close> (lemma
  \<open>planner_wf_init\<close> and its preservation below), so none is out of range.
\<close>

definition assign_at :: "nat list \<Rightarrow> 'a \<Rightarrow> 'a list \<Rightarrow> 'a list" where
  "assign_at js v xs = fold (\<lambda>j ys. ys[j := v]) js xs"

text \<open>The body of the status loop (lines 171-172) for one row of the log.\<close>

definition update_entry :: "surveyPlan \<Rightarrow> obs_row \<Rightarrow> surveyPlan" where
  "update_entry self e =
     (let j = np_where_eq (tileID self) (obs_TILEID e)
      in self\<lparr>status := assign_at j (obs_STATUS e) (status self)\<rparr>)"

text \<open>The status loop (lines 169-172): the rows of the log, first to last.\<close>

definition update_status :: "surveyPlan \<Rightarrow> obs_row list \<Rightarrow> surveyPlan" where
  "update_status self tiles_observed = fold (\<lambda>e s. update_entry s e) tiles_observed self"

text \<open>The condition of lines 178-180 for tile \<open>i\<close>.\<close>

definition eligible :: "surveyPlan \<Rightarrow> nat \<Rightarrow> bool" where
  "eligible self i \<longleftrightarrow>
     status self ! i < 2 \<and>
     ((isItDark self (LSTmin self ! i) = ''DARK'' \<and> isItDark self (LSTmax self ! i) = ''DARK''
         \<and> program self ! i = ''DARK'') \<or>
      ((isItDark self (LSTmin self ! i) \<noteq> ''DARK'' \<or> isItDark self (LSTmax self ! i) \<noteq> ''DARK'')
         \<and> program self ! i \<noteq> ''DARK''))"

text \<open>The tuple appended at lines 181-182 for tile \<open>i\<close>.\<close>

definition plan_tuple :: "surveyPlan \<Rightarrow> nat \<Rightarrow> plan_entry" where
  "plan_tuple self i =
     \<lparr> pl_TILEID = tileID self ! i, pl_RA = RA self ! i, pl_DEC = DEC self ! i,
       pl_EBV_MED = Ebmv self ! i, pl_LSTMIN = LSTmin self ! i, pl_LSTMAX = LSTmax self ! i,
       pl_MAXEXPLEN = maxExpLen self ! i, pl_PRIORITY = priority self ! i,
       pl_STATUS = status self ! i, pl_PROGRAM = program self ! i,
       pl_OBSCONDITIONS = obsconds self ! i \<rparr>"

definition planList0 :: "surveyPlan \<Rightarrow> plan_entry list" where
  "planList0 self = map (plan_tuple self) (filter (eligible self) [0..<length (tileID self)])"

text \<open>
  \<^verbatim>\<open>sorted(planList0, key=itemgetter(7), reverse=True)\<close>: Python's sort is stable, also
  with \<^verbatim>\<open>reverse=True\<close>, so this is the stable ascending sort on the negated key.
\<close>

definition sorted_by_priority :: "plan_entry list \<Rightarrow> plan_entry list" where
  "sorted_by_priority xs = sort_key (\<lambda>e. - pl_PRIORITY e) xs"

text \<open>
  \<^verbatim>\<open>afternoonPlan\<close>: the object after the call, the plan list written to the file, and the
  returned pair \<^verbatim>\<open>(tilesTODO, filename)\<close>.
\<close>

definition afternoonPlan ::
  "(real \<Rightarrow> real) \<Rightarrow> (real \<Rightarrow> real \<Rightarrow> real \<Rightarrow> real \<times> real) \<Rightarrow> surveyPlan \<Rightarrow> day_stats \<Rightarrow>
     obs_row list \<Rightarrow> surveyPlan \<times> plan_entry list \<times> nat \<times> string"
where
  "afternoonPlan mjd2lst radec2altaz self0 ds tiles_observed =
     (let self1 = update_status self0 tiles_observed;
          self2 = getDarkTimes mjd2lst radec2altaz self1 ds;
          planList = sorted_by_priority (planList0 self2);
          filename = ''obsplan'' @ dirName ds @ ''.fits'';
          tilesTODO = length planList
      in (self2, planList, tilesTODO, filename))"

subsection \<open>Well-formed planner objects\<close>

text \<open>
  Every per-tile column has the length of \<open>tileID\<close>: the constructor compresses all
  of them with one mask, and no method changes a length.
\<close>

definition planner_wf :: "surveyPlan \<Rightarrow> bool" where
  "planner_wf self \<longleftrightarrow>
     length (RA self) = length (tileID self) \<and>
     length (DEC self) = length (tileID self) \<and>
     length (Ebmv self) = length (tileID self) \<and>
     length (maxExpLen self) = length (tileID self) \<and>
     length (program self) = length (tileID self) \<and>
     length (obsconds self) = length (tileID self) \<and>
     length (LSTmin self) = length (tileID self) \<and>
     length (LSTmax self) = length (tileID self) \<and>
     length (status self) = length (tileID self) \<and>
     length (priority self) = length (tileID self)"

section \<open>The weather simulator: \<^verbatim>\<open>weather.py\<close>\<close>

subsection \<open>Data\<close>

text \<open>The exceptions the modelled code raises.\<close>

datatype error = ValueError | IndexError | OverflowError

text \<open>
  One row of the weather table. The column the source calls \<^verbatim>\<open>open\<close> is \<open>dome_open\<close> here
  (\<open>open\<close> is taken by topology).
\<close>

record weather_row =
  mjd :: real
  dome_open :: bool
  seeing :: real
  transparency :: real

text \<open>
  The attributes of a \<^verbatim>\<open>Weather\<close> object; \<open>table\<close> is \<^verbatim>\<open>_table\<close>. A date is its day number
  (\<^verbatim>\<open>date.toordinal()\<close>), so that \<^verbatim>\<open>(stop_date - start_date).days\<close> is a difference of
  integers.
\<close>

record Weather =
  table :: "weather_row list"
  start_date :: int
  stop_date :: int
  num_nights :: int
  steps_per_day :: int

text \<open>
  A numpy value that is either a scalar or an array: \<^verbatim>\<open>time.mjd\<close> of a scalar or of an array
  \<^verbatim>\<open>Time\<close>, and what indexing a table with it returns (one row, or a table of rows). Numpy's
  elementwise operations are \<open>map_ndarray\<close>, and \<^verbatim>\<open>np.any\<close> is a bounded existential over
  \<open>set_ndarray\<close>.
\<close>

datatype 'a ndarray = Scalar 'a | Array "'a list"

text \<open>The content of a saved weather file: the table and its four metadata scalars.\<close>

record stored_weather =
  st_table :: "weather_row list"
  st_START :: int
  st_STOP :: int
  st_NIGHTS :: int
  st_STEPS :: int

text \<open>
  What the constructor takes from outside this module: the configured survey dates, local
  noon of a date as an MJD, the calendar month of an MJD (1 to 12), the monthly
  probabilities that the dome is closed (indexed from 0), the conversion to 32-bit floats,
  and the random generator with the three samplers that draw from it. \<open>'g\<close> is the state
  of the generator. Each sampler is taken to return as many samples as it is asked for.
\<close>

record 'g environment =
  first_day :: int
  last_day :: int
  local_noon_on_date :: "int \<Rightarrow> real"
  month_of :: "real \<Rightarrow> nat"
  dome_closed_probabilities :: "nat \<Rightarrow> real"
  float32 :: "real \<Rightarrow> real"
  fresh_gen :: 'g
  uniform :: "'g \<Rightarrow> real \<times> 'g"
  sample_seeing :: "nat \<Rightarrow> real \<Rightarrow> 'g \<Rightarrow> real list \<times> 'g"
  sample_transp :: "nat \<Rightarrow> real \<Rightarrow> 'g \<Rightarrow> real list \<times> 'g"

subsection \<open>The constructor\<close>

text \<open>Python 3's \<^verbatim>\<open>round\<close> to an integer: to the nearest, and to the even one at a tie.\<close>

definition py_round :: "real \<Rightarrow> int" where
  "py_round x =
     (let f = \<lfloor>x\<rfloor>; d = x - of_int f
      in if d < 1 / 2 then f else if d > 1 / 2 then f + 1 else if even f then f else f + 1)"

text \<open>\<^verbatim>\<open>np.allclose(a, b)\<close> on scalars, with numpy's default tolerances.\<close>

definition allclose :: "real \<Rightarrow> real \<Rightarrow> bool" where
  "allclose a b \<longleftrightarrow> \<bar>a - b\<bar> \<le> 1 / 10 ^ 8 + 1 / 10 ^ 5 * \<bar>b\<bar>"

text \<open>\<^verbatim>\<open>a[i:j] = v\<close> for \<open>0 \<le> i\<close>.\<close>

definition assign_slice :: "'a list \<Rightarrow> nat \<Rightarrow> nat \<Rightarrow> 'a \<Rightarrow> 'a list" where
  "assign_slice xs i j v = map (\<lambda>k. if i \<le> k \<and> k < j then v else xs ! k) [0..<length xs]"

text \<open>
  The loop over the nights (lines 98-102): one uniform draw a night, and the whole night
  closed when it is below the month's probability.
\<close>

fun dome_loop ::
  "'g environment \<Rightarrow> real list \<Rightarrow> nat \<Rightarrow> nat list \<Rightarrow> bool list \<Rightarrow> 'g \<Rightarrow> bool list \<times> 'g"
where
  "dome_loop env tms spd [] opn gen = (opn, gen)"
| "dome_loop env tms spd (i # nights) opn gen =
     (let ij = i * spd;
          month = month_of env (tms ! ij);
          (u, gen') = uniform env gen
      in dome_loop env tms spd nights
           (if u < dome_closed_probabilities env (month - 1)
            then assign_slice opn ij (ij + spd) False else opn)
           gen')"

text \<open>
  The constructor in generate mode (lines 61-116), \<open>time_step\<close> in days. Two library calls
  raise on the way: \<^verbatim>\<open>round\<close> of the infinity that a zero time step gives
  (\<^verbatim>\<open>OverflowError\<close>), and \<^verbatim>\<open>np.ones\<close> of a negative number of rows (\<^verbatim>\<open>ValueError\<close>, negative
  dimensions are not allowed); \<^verbatim>\<open>np.arange\<close> of a negative number is empty. The warning
  logged when no generator is given is not modelled.
\<close>

definition Weather_generate ::
  "'g environment \<Rightarrow> int option \<Rightarrow> int option \<Rightarrow> real \<Rightarrow> 'g option \<Rightarrow> error + Weather"
where
  "Weather_generate env start_date0 stop_date0 time_step gen0 =
     (let gen = (case gen0 of None \<Rightarrow> fresh_gen env | Some g \<Rightarrow> g);
          start_date = (case start_date0 of None \<Rightarrow> first_day env | Some d \<Rightarrow> d);
          stop_date = (case stop_date0 of None \<Rightarrow> last_day env | Some d \<Rightarrow> d);
          num_nights = stop_date - start_date
      in if num_nights \<le> 0 then Inl ValueError
         else if time_step = 0 then Inl OverflowError
         else
           (let steps_per_day = py_round (1 / time_step)
            in if \<not> allclose (of_int steps_per_day * time_step) 1 then Inl ValueError
               else
                 (let num_rows = num_nights * steps_per_day;
                      t0 = local_noon_on_date env start_date;
                      tms = map (\<lambda>k. t0 + real k / of_int steps_per_day) [0..<nat num_rows]
                  in if num_rows < 0 then Inl ValueError
                     else
                       (let (opn, gen1) =
                              dome_loop env tms (nat steps_per_day) [0..<nat num_nights]
                                (replicate (nat num_rows) True) gen;
                            dt_sec = 24 * 3600 / of_int steps_per_day;
                            (see, gen2) = sample_seeing env (nat num_rows) dt_sec gen1;
                            (tra, gen3) = sample_transp env (nat num_rows) dt_sec gen2
                        in Inr \<lparr> table =
                                   map (\<lambda>k. \<lparr> mjd = tms ! k, dome_open = opn ! k,
                                              seeing = float32 env (see ! k),
                                              transparency = float32 env (tra ! k) \<rparr>)
                                     [0..<nat num_rows],
                                 start_date = start_date,
                                 stop_date = stop_date,
                                 num_nights = num_nights,
                                 steps_per_day = steps_per_day \<rparr>))))"

text \<open>
  \<^verbatim>\<open>Weather.__init__\<close>: with \<open>restore\<close> the stored table and metadata are taken as they are and
  every other parameter is ignored.
\<close>

definition Weather_init ::
  "'g environment \<Rightarrow> int option \<Rightarrow> int option \<Rightarrow> real \<Rightarrow> 'g option \<Rightarrow> stored_weather option
     \<Rightarrow> error + Weather"
where
  "Weather_init env start_date0 stop_date0 time_step gen0 restore =
     (case restore of
        Some st \<Rightarrow>
          Inr \<lparr> table = st_table st, start_date = st_START st, stop_date = st_STOP st,
                num_nights = st_NIGHTS st, steps_per_day = st_STEPS st \<rparr>
      | None \<Rightarrow> Weather_generate env start_date0 stop_date0 time_step gen0)"

subsection \<open>Queries\<close>

text \<open>Line 155-157 for one time: \<^verbatim>\<open>floor((t - mjd[0]) * steps_per_day + 0.5)\<close> as an integer.\<close>

definition offset_of :: "Weather \<Rightarrow> real \<Rightarrow> int" where
  "offset_of self t = \<lfloor>(t - mjd (table self ! 0)) * of_int (steps_per_day self) + 0.5\<rfloor>"

text \<open>
  \<^verbatim>\<open>tbl[idx]\<close> for an integer or an integer array: Python counts a negative index from the
  end, and an index outside \<open>-len \<le> i < len\<close> raises \<^verbatim>\<open>IndexError\<close>.
\<close>

definition table_getitem :: "'a list \<Rightarrow> int ndarray \<Rightarrow> error + 'a ndarray" where
  "table_getitem tbl idx =
     (if \<exists>i \<in> set_ndarray idx. i < - int (length tbl) \<or> int (length tbl) \<le> i
      then Inl IndexError
      else Inr (map_ndarray (\<lambda>i. tbl ! nat (if i < 0 then i + int (length tbl) else i)) idx))"

text \<open>
  \<^verbatim>\<open>Weather.get\<close>. Reading \<^verbatim>\<open>self._table['mjd'][0]\<close> of an empty table raises \<^verbatim>\<open>IndexError\<close>.
\<close>

definition get :: "Weather \<Rightarrow> real ndarray \<Rightarrow> error + weather_row ndarray" where
  "get self time =
     (if table self = [] then Inl IndexError
      else
        (let offset = map_ndarray (offset_of self) time
         in if (\<exists>i \<in> set_ndarray offset. i < 0) \<or>
               (\<exists>i \<in> set_ndarray offset. i > int (length (table self)))
            then Inl ValueError
            else table_getitem (table self) offset))"

section \<open>Example inputs\<close>

text \<open>
  Concrete inputs at which the theorems below are instantiated. \<open>example_mjd2lst\<close> and
  \<open>example_radec2altaz\<close> stand in for the two functions of \<^verbatim>\<open>surveysim.utils\<close> there: the
  fraction of the day as an angle, and a moon at 45 degrees of altitude.
\<close>

definition example_mjd2lst :: "real \<Rightarrow> real" where
  "example_mjd2lst m = 360 * (m - of_int \<lfloor>m\<rfloor>)"

definition example_radec2altaz :: "real \<Rightarrow> real \<Rightarrow> real \<Rightarrow> real \<times> real" where
  "example_radec2altaz ra dec lst = (45, 180)"

definition example_tile :: "int \<Rightarrow> real \<Rightarrow> real \<Rightarrow> string \<Rightarrow> tile_row" where
  "example_tile tid ra ha prog =
     \<lparr> fld_TILEID = tid, fld_RA = ra, fld_DEC = 20, fld_PASS = 0, fld_IN_DESI = 1,
       fld_EBV_MED = 0.02, fld_AIRMASS = 1.1, fld_EXPOSEFAC = 1, fld_STAR_DENSITY = 1000,
       fld_PROGRAM = prog, fld_OBSCONDITIONS = 1, fld_OBSTIME = 1000, fld_HA = ha \<rparr>"

definition example_log :: "int \<Rightarrow> real \<Rightarrow> obs_row" where
  "example_log tid s = \<lparr> obs_TILEID = tid, obs_STATUS = s \<rparr>"

text \<open>A night on which the moon neither rises nor sets.\<close>

definition night_no_moon :: day_stats where
  "night_no_moon =
     \<lparr> MJDmoonrise = -1, MJDmoonset = -1, MJDetwi = 57900.15, MJDmtwi = 57900.45,
       MJDmidnight = 57900.3, MoonRA = 10, MoonDEC = 5, MoonFrac = 0.5,
       dirName = ''20170527'' \<rparr>"

text \<open>A night on which the moon does not rise, and sets between the twilights.\<close>

definition night_moon_sets :: day_stats where
  "night_moon_sets = night_no_moon\<lparr>MJDmoonset := 57900.25\<rparr>"

text \<open>A night on which the moon rises after morning twilight.\<close>

definition night_moon_rises_late :: day_stats where
  "night_moon_rises_late = night_no_moon\<lparr>MJDmoonrise := 57900.5, MJDmoonset := 57900.9\<rparr>"

definition one_tile_plan :: surveyPlan where
  "one_tile_plan = surveyPlan_init [example_tile 1 120 0 ''DARK'']"

text \<open>A tile whose upper bound \<open>RA + HA + 15\<close> is 360.\<close>

definition boundary_tile :: tile_row where
  "boundary_tile = example_tile 7 345 0 ''DARK''"

text \<open>A planner whose first dark window begins at LST 0.\<close>

definition zero_begin_plan :: surveyPlan where
  "zero_begin_plan = one_tile_plan\<lparr>LST_dark1_begin := 0, LST_dark1_end := 180\<rparr>"

definition four_tile_plan :: surveyPlan where
  "four_tile_plan = surveyPlan_init
     [example_tile 1 120 0 ''DARK'', example_tile 2 300 0 ''BRIGHT'',
      example_tile 3 120 0 ''DARK'', example_tile 4 170 0 ''DARK'']"

definition example_result :: "surveyPlan \<times> plan_entry list \<times> nat \<times> string" where
  "example_result = afternoonPlan example_mjd2lst example_radec2altaz four_tile_plan
                      night_moon_rises_late [example_log 3 2]"

text \<open>A weather table of two rows, half a day apart.\<close>

definition example_weather :: Weather where
  "example_weather =
     \<lparr> table = [\<lparr> mjd = 58849.5, dome_open = True, seeing = 1.1, transparency = 0.9 \<rparr>,
                \<lparr> mjd = 58850, dome_open = True, seeing = 1.2, transparency = 0.8 \<rparr>],
       start_date = 737425, stop_date = 737426, num_nights = 1, steps_per_day = 2 \<rparr>"

text \<open>
  An environment with a generator that counts its draws and always draws one half.
\<close>

definition example_env :: "nat environment" where
  "example_env =
     \<lparr> first_day = 737425, last_day = 737485,
       local_noon_on_date = (\<lambda>d. real_of_int d - 678575.5),
       month_of = (\<lambda>m. 1),
       dome_closed_probabilities = (\<lambda>k. 0.35),
       float32 = (\<lambda>x. x),
       fresh_gen = 0,
       uniform = (\<lambda>g. (0.5, Suc g)),
       sample_seeing = (\<lambda>n dt g. (replicate n 1.1, g + n)),
       sample_transp = (\<lambda>n dt g. (replicate n 0.9, g + n)) \<rparr>"

section \<open>Properties of the planner\<close>

subsection \<open>Columns and status updates\<close>

lemma length_compress_map:
  "length (compress (map p rows) (map f rows)) = length (filter p rows)"
  unfolding compress_def by (induction rows) auto

lemma compress_map:
  "compress (map p rows) (map f rows) = map f (filter p rows)"
  unfolding compress_def by (induction rows) auto

lemma compress_Cons:
  "compress (k # ks) (x # xs) = (if k then x # compress ks xs else compress ks xs)"
  "compress [] xs = []"
  by (simp_all add: compress_def)

lemma planner_wf_init: "planner_wf (surveyPlan_init tiledata)"
  by (simp add: planner_wf_def surveyPlan_init_def Let_def compress_map)

lemma length_assign_at: "length (assign_at js v xs) = length xs"
  unfolding assign_at_def by (induction js arbitrary: xs) auto

lemma nth_assign_at:
  "i < length xs \<Longrightarrow> assign_at js v xs ! i = (if i \<in> set js then v else xs ! i)"
  unfolding assign_at_def
proof (induction js arbitrary: xs)
  case Nil
  then show ?case by simp
next
  case (Cons j js)
  have len: "i < length (xs[j := v])" using Cons.prems by simp
  show ?case
    using Cons.IH [OF len] Cons.prems by (auto simp: nth_list_update)
qed

lemma set_np_where_eq: "set (np_where_eq xs v) = {i. i < length xs \<and> xs ! i = v}"
  by (auto simp: np_where_eq_def)

lemma np_where_eq_single: "np_where_eq [x] v = (if x = v then [0] else [])"
  by (simp add: np_where_eq_def)

lemma tileID_update_entry: "tileID (update_entry self e) = tileID self"
  by (simp add: update_entry_def Let_def)

lemma status_update_entry:
  assumes "length (status self) = length (tileID self)" and "i < length (tileID self)"
  shows "status (update_entry self e) ! i =
           (if tileID self ! i = obs_TILEID e then obs_STATUS e else status self ! i)"
  using assms by (simp add: update_entry_def Let_def nth_assign_at set_np_where_eq)

lemma planner_wf_update_entry: "planner_wf self \<Longrightarrow> planner_wf (update_entry self e)"
  by (simp add: planner_wf_def update_entry_def Let_def length_assign_at)

lemma planner_wf_update_status: "planner_wf self \<Longrightarrow> planner_wf (update_status self obs)"
  unfolding update_status_def
  by (induction obs arbitrary: self) (auto simp: planner_wf_update_entry)

lemma tileID_update_status: "tileID (update_status self obs) = tileID self"
  unfolding update_status_def
  by (induction obs arbitrary: self) (auto simp: tileID_update_entry)

lemma update_status_Nil: "update_status self [] = self"
  by (simp add: update_status_def)

lemma update_status_Cons: "update_status self (e # obs) = update_status (update_entry self e) obs"
  by (simp add: update_status_def)

lemma update_status_snoc: "update_status self (obs @ [e]) = update_entry (update_status self obs) e"
  by (simp add: update_status_def)

lemma status_update_status:
  assumes "planner_wf self" and "i < length (tileID self)"
  shows "status (update_status self obs) ! i =
           (case find (\<lambda>e. obs_TILEID e = tileID self ! i) (rev obs) of
              None \<Rightarrow> status self ! i
            | Some e \<Rightarrow> obs_STATUS e)"
proof (induction obs rule: rev_induct)
  case Nil
  show ?case by (simp add: update_status_Nil)
next
  case (snoc e obs)
  let ?s = "update_status self obs"
  have wf: "length (status ?s) = length (tileID ?s)"
    using planner_wf_update_status [OF assms(1)] by (simp add: planner_wf_def)
  have i: "i < length (tileID ?s)" using assms(2) by (simp add: tileID_update_status)
  show ?case
    using status_update_entry [OF wf i, of e] snoc.IH
    by (auto simp: update_status_snoc tileID_update_status)
qed

lemma update_entry_unknown:
  assumes "obs_TILEID e \<notin> set (tileID self)"
  shows "update_entry self e = self"
proof -
  have "np_where_eq (tileID self) (obs_TILEID e) = []"
    using assms by (auto simp: np_where_eq_def filter_empty_conv) (metis nth_mem)
  then show ?thesis by (simp add: update_entry_def assign_at_def)
qed

lemma update_status_drop_unknown:
  "update_status self (filter (\<lambda>e. obs_TILEID e \<in> set (tileID self)) obs) = update_status self obs"
proof (induction obs arbitrary: self)
  case Nil
  show ?case by simp
next
  case (Cons e obs)
  show ?case
    using Cons.IH [of "update_entry self e"] Cons.IH [of self]
    by (auto simp: update_status_Cons tileID_update_entry update_entry_unknown)
qed

lemma one_tile_plan_simps:
  "tileID one_tile_plan = [1]" "status one_tile_plan = [0]"
  by (simp_all add: one_tile_plan_def surveyPlan_init_def Let_def example_tile_def compress_Cons)

lemma planner_wf_one_tile: "planner_wf one_tile_plan"
  unfolding one_tile_plan_def by (rule planner_wf_init)

lemma status_one_tile_update:
  "tileID self = [1] \<Longrightarrow> status self = [s] \<Longrightarrow> 
     status (update_status self [example_log 1 s']) = [s'] \<and>
     tileID (update_status self [example_log 1 s']) = [1]"
  by (simp add: update_status_def update_entry_def Let_def np_where_eq_single assign_at_def
      example_log_def)

text \<open>
  Claim C3 says that the status of a tile never decreases under the updates taken from the
  observation log. The loop stores the status of the log row, whatever the tile had: a
  tile brought to status 2 by one log goes back to 0 when a later log says 0.
\<close>

theorem status_decreases_counterexample:
  "\<not> status (update_status one_tile_plan [example_log 1 2]) ! 0
       \<le> status (update_status (update_status one_tile_plan [example_log 1 2]) [example_log 1 0]) ! 0"
proof -
  have a: "status (update_status one_tile_plan [example_log 1 2]) = [2]"
     "tileID (update_status one_tile_plan [example_log 1 2]) = [1]"
    using status_one_tile_update [OF one_tile_plan_simps, of 2] by simp_all
  have b: "status (update_status (update_status one_tile_plan [example_log 1 2]) [example_log 1 0]) = [0]"
    using status_one_tile_update [OF a(2) a(1), of 0] by simp
  show ?thesis by (simp add: a b)
qed

text \<open>
  Claim C3, amended: after the update for one log row, a tile with the id of the row has
  exactly the status of the row and every other tile keeps its status; so the status of a
  tile does not decrease exactly when the row is for another tile or carries a status at
  least as large as the one the tile had.
\<close>

theorem update_entry_overwrites:
  assumes "planner_wf self" and "i < length (tileID self)"
  shows "status (update_entry self e) ! i =
           (if tileID self ! i = obs_TILEID e then obs_STATUS e else status self ! i) \<and>
         (status self ! i \<le> status (update_entry self e) ! i \<longleftrightarrow>
           (tileID self ! i = obs_TILEID e \<longrightarrow> status self ! i \<le> obs_STATUS e))"
proof -
  have len: "length (status self) = length (tileID self)"
    using assms(1) by (simp add: planner_wf_def)
  show ?thesis using status_update_entry [OF len assms(2), of e] by simp
qed

theorem update_entry_overwrites_witness:
  "planner_wf one_tile_plan \<and> (0::nat) < length (tileID one_tile_plan) \<and>
   status (update_entry one_tile_plan (example_log 1 2)) ! 0 = 2 \<and>
   status one_tile_plan ! 0 \<le> status (update_entry one_tile_plan (example_log 1 2)) ! 0"
proof -
  have i: "(0::nat) < length (tileID one_tile_plan)" by (simp add: one_tile_plan_simps)
  show ?thesis
    using update_entry_overwrites [OF planner_wf_one_tile i, of "example_log 1 2"]
      planner_wf_one_tile
    by (simp add: one_tile_plan_simps example_log_def)
qed

text \<open>
  Claim C6: after the status loop over a log, a tile has the status of the last row of the
  log with its id, and its old status when no row has its id; rows whose id matches no
  tile can be removed from the log without changing the result, and one such row leaves
  the planner as it is. The loop has no failing path: the model is a total function.
\<close>

theorem update_status_last_write_wins:
  assumes "planner_wf self" and "i < length (tileID self)"
  shows "status (update_status self tiles_observed) ! i =
           (case find (\<lambda>e. obs_TILEID e = tileID self ! i) (rev tiles_observed) of
              None \<Rightarrow> status self ! i
            | Some e \<Rightarrow> obs_STATUS e) \<and>
         update_status self (filter (\<lambda>e. obs_TILEID e \<in> set (tileID self)) tiles_observed)
           = update_status self tiles_observed \<and>
         (obs_TILEID e \<notin> set (tileID self) \<longrightarrow> update_entry self e = self)"
  using status_update_status [OF assms] update_status_drop_unknown update_entry_unknown
  by blast

theorem update_status_last_write_wins_witness:
  "planner_wf one_tile_plan \<and> (0::nat) < length (tileID one_tile_plan) \<and>
   status (update_status one_tile_plan [example_log 1 1, example_log 9 5, example_log 1 2]) ! 0 = 2 \<and>
   update_status one_tile_plan [example_log 1 1, example_log 1 2]
     = update_status one_tile_plan [example_log 1 1, example_log 9 5, example_log 1 2] \<and>
   update_entry one_tile_plan (example_log 9 5) = one_tile_plan"
proof -
  have i: "(0::nat) < length (tileID one_tile_plan)" by (simp add: one_tile_plan_simps)
  show ?thesis
    using update_status_last_write_wins [OF planner_wf_one_tile i,
        of "[example_log 1 1, example_log 9 5, example_log 1 2]" "example_log 9 5"]
      planner_wf_one_tile
    by (simp add: one_tile_plan_simps example_log_def)
qed

subsection \<open>Dark windows\<close>

text \<open>
  None of the first three tests of \<^verbatim>\<open>getDarkTimes\<close> holds when \<^verbatim>\<open>MJDmoonrise\<close> is not
  positive, whatever \<^verbatim>\<open>MJDmoonset\<close> is: the last branch runs, and it assigns
  \<open>LST_dark_begin\<close> and \<open>LST_dark_end\<close>, which nothing reads; the first window keeps
  the bounds it had before the call.
\<close>

lemma dark_windows_moonrise_le0:
  "\<not> MJDmoonrise ds > 0 \<Longrightarrow>
     dark_windows f self ds =
       self\<lparr>LST_dark2_begin := -1, LST_dark2_end := -1,
            LST_dark_begin := Some (f (MJDetwi ds)), LST_dark_end := Some (f (MJDmtwi ds))\<rparr>"
  by (simp add: dark_windows_def Let_def)

lemma getDarkTimes_fields:
  "LST_dark1_begin (getDarkTimes f g self ds) = LST_dark1_begin (dark_windows f self ds)"
  "LST_dark1_end (getDarkTimes f g self ds) = LST_dark1_end (dark_windows f self ds)"
  "LST_dark2_begin (getDarkTimes f g self ds) = LST_dark2_begin (dark_windows f self ds)"
  "LST_dark2_end (getDarkTimes f g self ds) = LST_dark2_end (dark_windows f self ds)"
  "LST_dark_begin (getDarkTimes f g self ds) = LST_dark_begin (dark_windows f self ds)"
  "LST_dark_end (getDarkTimes f g self ds) = LST_dark_end (dark_windows f self ds)"
  by (simp_all add: getDarkTimes_def Let_def split: prod.splits)

lemma moonUp_getDarkTimes:
  "moonUp (getDarkTimes f g self ds) = ''GREY'' \<or> moonUp (getDarkTimes f g self ds) = ''BRIGHT''"
  by (simp add: getDarkTimes_def Let_def split: prod.splits)

lemma init_dark_fields:
  "LST_dark1_begin (surveyPlan_init t) = -1" "LST_dark1_end (surveyPlan_init t) = -1"
  "LST_dark2_begin (surveyPlan_init t) = -1" "LST_dark2_end (surveyPlan_init t) = -1"
  "moonUp (surveyPlan_init t) = ''BRIGHT''"
  by (simp_all add: surveyPlan_init_def Let_def)

lemma planner_wf_getDarkTimes:
  "planner_wf self \<Longrightarrow> planner_wf (getDarkTimes f g self ds)"
  by (simp add: planner_wf_def getDarkTimes_def dark_windows_def Let_def split: prod.splits)

lemma moonUp_update_status: "moonUp (update_status self obs) = moonUp self"
  unfolding update_status_def
  by (induction obs arbitrary: self) (auto simp: update_entry_def Let_def)

lemma moonUp_init_not_DARK: "moonUp (surveyPlan_init tiledata) \<noteq> ''DARK''"
  by (simp add: init_dark_fields)

lemma moonUp_afternoonPlan_not_DARK:
  "moonUp (fst (afternoonPlan mjd2lst radec2altaz self0 ds tiles_observed)) \<noteq> ''DARK''"
proof -
  have "fst (afternoonPlan mjd2lst radec2altaz self0 ds tiles_observed)
          = getDarkTimes mjd2lst radec2altaz (update_status self0 tiles_observed) ds"
    by (simp add: afternoonPlan_def Let_def)
  then show ?thesis
    using moonUp_getDarkTimes [of mjd2lst radec2altaz "update_status self0 tiles_observed" ds]
    by auto
qed

text \<open>
  Claim C1 says that on a night when the moon neither rises nor sets the first dark window
  is \<open>mjd2lst MJDetwi\<close> to \<open>mjd2lst MJDmtwi\<close>. On the night \<open>night_no_moon\<close>, for a planner
  fresh from the constructor, the code leaves both bounds of the first window at the
  sentinel -1, stores the twilight bounds in the two other attributes, and classifies no
  LST as dark.
\<close>

theorem getDarkTimes_no_moon_leaves_dark1_unset:
  "LST_dark1_begin (getDarkTimes mjd2lst radec2altaz (surveyPlan_init tiledata) night_no_moon) = -1 \<and>
   LST_dark1_end (getDarkTimes mjd2lst radec2altaz (surveyPlan_init tiledata) night_no_moon) = -1 \<and>
   LST_dark_begin (getDarkTimes mjd2lst radec2altaz (surveyPlan_init tiledata) night_no_moon)
     = Some (mjd2lst (MJDetwi night_no_moon)) \<and>
   LST_dark_end (getDarkTimes mjd2lst radec2altaz (surveyPlan_init tiledata) night_no_moon)
     = Some (mjd2lst (MJDmtwi night_no_moon)) \<and>
   isItDark (getDarkTimes mjd2lst radec2altaz (surveyPlan_init tiledata) night_no_moon) lst \<noteq> ''DARK''"
proof -
  have nm: "\<not> MJDmoonrise night_no_moon > 0" by (simp add: night_no_moon_def)
  let ?s = "getDarkTimes mjd2lst radec2altaz (surveyPlan_init tiledata) night_no_moon"
  have f: "LST_dark1_begin ?s = -1" "LST_dark1_end ?s = -1" "LST_dark2_begin ?s = -1"
    "LST_dark_begin ?s = Some (mjd2lst (MJDetwi night_no_moon))"
    "LST_dark_end ?s = Some (mjd2lst (MJDmtwi night_no_moon))"
    by (simp_all add: getDarkTimes_fields dark_windows_moonrise_le0 [OF nm] init_dark_fields)
  have "isItDark ?s lst = moonUp ?s" by (simp add: isItDark_def f)
  then have "isItDark ?s lst \<noteq> ''DARK''"
    using moonUp_getDarkTimes [of mjd2lst radec2altaz "surveyPlan_init tiledata" night_no_moon]
    by auto
  with f show ?thesis by simp
qed

text \<open>
  Claim C2 says that on a night when the moon sets but does not rise the first dark window
  is \<open>mjd2lst MJDmoonset\<close> to \<open>mjd2lst MJDmtwi\<close> when the moon sets before morning
  twilight. On the night \<open>night_moon_sets\<close> (no moonrise, moonset between the twilights),
  for a planner fresh from the constructor, the code leaves both bounds of the first
  window at the sentinel -1 and classifies no LST as dark: the test of line 142 reads
  \<^verbatim>\<open>MJDmoonrise\<close> twice and never holds.
\<close>

theorem getDarkTimes_moon_sets_leaves_dark1_unset:
  "MJDmoonrise night_moon_sets < 0 \<and> MJDmoonset night_moon_sets > 0 \<and>
   MJDmoonset night_moon_sets < MJDmtwi night_moon_sets \<and>
   LST_dark1_begin (getDarkTimes mjd2lst radec2altaz (surveyPlan_init tiledata) night_moon_sets) = -1 \<and>
   LST_dark1_end (getDarkTimes mjd2lst radec2altaz (surveyPlan_init tiledata) night_moon_sets) = -1 \<and>
   isItDark (getDarkTimes mjd2lst radec2altaz (surveyPlan_init tiledata) night_moon_sets) lst \<noteq> ''DARK''"
proof -
  have nm: "\<not> MJDmoonrise night_moon_sets > 0"
    by (simp add: night_moon_sets_def night_no_moon_def)
  let ?s = "getDarkTimes mjd2lst radec2altaz (surveyPlan_init tiledata) night_moon_sets"
  have f: "LST_dark1_begin ?s = -1" "LST_dark1_end ?s = -1" "LST_dark2_begin ?s = -1"
    by (simp_all add: getDarkTimes_fields dark_windows_moonrise_le0 [OF nm] init_dark_fields)
  have "isItDark ?s lst = moonUp ?s" by (simp add: isItDark_def f)
  then have "isItDark ?s lst \<noteq> ''DARK''"
    using moonUp_getDarkTimes [of mjd2lst radec2altaz "surveyPlan_init tiledata" night_moon_sets]
    by auto
  with f show ?thesis by (simp add: night_moon_sets_def night_no_moon_def)
qed

text \<open>
  Claim C10: when the class of the rest of the night is not the string DARK (the
  constructor and \<^verbatim>\<open>getDarkTimes\<close> only store BRIGHT or GREY), \<^verbatim>\<open>isItDark\<close> answers DARK
  exactly when one of the two windows has a positive begin, a positive end, and the LST
  strictly between them; a window that begins at exactly 0 is treated as the absent
  window (-1, -1).
\<close>

theorem isItDark_needs_positive_begin:
  assumes "moonUp self \<noteq> ''DARK''"
  shows "(isItDark self lst = ''DARK'' \<longleftrightarrow>
            (LST_dark1_begin self > 0 \<and> LST_dark1_end self > 0 \<and>
               LST_dark1_begin self < lst \<and> lst < LST_dark1_end self) \<or>
            (LST_dark2_begin self > 0 \<and> LST_dark2_end self > 0 \<and>
               LST_dark2_begin self < lst \<and> lst < LST_dark2_end self)) \<and>
         (LST_dark1_begin self = 0 \<longrightarrow>
            isItDark self lst = isItDark (self\<lparr>LST_dark1_begin := -1, LST_dark1_end := -1\<rparr>) lst) \<and>
         (LST_dark2_begin self = 0 \<longrightarrow>
            isItDark self lst = isItDark (self\<lparr>LST_dark2_begin := -1, LST_dark2_end := -1\<rparr>) lst)"
  using assms by (auto simp: isItDark_def)

theorem isItDark_needs_positive_begin_witness:
  "moonUp zero_begin_plan \<noteq> ''DARK'' \<and> LST_dark1_begin zero_begin_plan = 0 \<and>
   LST_dark1_end zero_begin_plan = 180 \<and>
   isItDark zero_begin_plan 90 = ''BRIGHT'' \<and> isItDark zero_begin_plan 90 \<noteq> ''DARK''"
proof -
  have m: "moonUp zero_begin_plan \<noteq> ''DARK''"
    by (simp add: zero_begin_plan_def one_tile_plan_def init_dark_fields)
  have b: "LST_dark1_begin zero_begin_plan = 0" "LST_dark1_end zero_begin_plan = 180"
    by (simp_all add: zero_begin_plan_def)
  have "isItDark zero_begin_plan 90 = ''BRIGHT''"
    using isItDark_needs_positive_begin [OF m, of 90] b
    by (simp add: isItDark_def zero_begin_plan_def one_tile_plan_def init_dark_fields)
  with m b show ?thesis by simp
qed

subsection \<open>The LST window of a tile\<close>

lemma wrap_lst_closed: "-360 \<le> x \<Longrightarrow> x \<le> 720 \<Longrightarrow> 0 \<le> wrap_lst x \<and> wrap_lst x \<le> 360"
  by (simp add: wrap_lst_def)

lemma map2_same_list:
  "map (k \<circ> (\<lambda>(x, y). f x y)) (zip (map g xs) (map h xs)) = map (\<lambda>x. k (f (g x) (h x))) xs"
  by (induction xs) auto

lemma LSTmin_init:
  "LSTmin (surveyPlan_init tiledata) =
     map (\<lambda>r. wrap_lst (fld_RA r + fld_HA r - 15)) (filter (\<lambda>r. fld_IN_DESI r = 1) tiledata)"
  by (simp add: surveyPlan_init_def Let_def compress_map map2_same_list)

lemma LSTmax_init:
  "LSTmax (surveyPlan_init tiledata) =
     map (\<lambda>r. wrap_lst (fld_RA r + fld_HA r + 15)) (filter (\<lambda>r. fld_IN_DESI r = 1) tiledata)"
  by (simp add: surveyPlan_init_def Let_def compress_map map2_same_list)

text \<open>
  Claim C8 says that the wrapped \<open>LSTmin\<close> and \<open>LSTmax\<close> of every tile lie in the
  half-open interval from 0 to 360. The wrap leaves a value of exactly 360 alone: the tile
  with \<open>RA + HA = 345\<close> gets \<open>LSTmax = 360\<close>.
\<close>

theorem lst_window_360_counterexample:
  "\<not> LSTmax (surveyPlan_init [boundary_tile]) ! 0 < 360"
  by (simp add: LSTmax_init boundary_tile_def example_tile_def wrap_lst_def)

text \<open>
  Claim C8, amended: for every retained tile whose own \<open>RA + HA\<close> is between -345 and
  705 (so that one addition or subtraction of 360 is enough), whatever the other tiles of
  the table are, \<open>LSTmin\<close> and \<open>LSTmax\<close> of the tile lie in the closed interval from 0
  to 360. Tile \<open>i\<close> of the planner is row \<open>i\<close> of the rows of the table with
  \<^verbatim>\<open>IN_DESI == 1\<close>.
\<close>

theorem lst_window_closed_range:
  assumes "i < length (tileID (surveyPlan_init tiledata))"
    and "-345 \<le> fld_RA (filter (\<lambda>r. fld_IN_DESI r = 1) tiledata ! i)
                  + fld_HA (filter (\<lambda>r. fld_IN_DESI r = 1) tiledata ! i)"
    and "fld_RA (filter (\<lambda>r. fld_IN_DESI r = 1) tiledata ! i)
           + fld_HA (filter (\<lambda>r. fld_IN_DESI r = 1) tiledata ! i) \<le> 705"
  shows "tileID (surveyPlan_init tiledata) ! i
           = fld_TILEID (filter (\<lambda>r. fld_IN_DESI r = 1) tiledata ! i) \<and>
         RA (surveyPlan_init tiledata) ! i
           = fld_RA (filter (\<lambda>r. fld_IN_DESI r = 1) tiledata ! i) \<and>
         0 \<le> LSTmin (surveyPlan_init tiledata) ! i \<and> LSTmin (surveyPlan_init tiledata) ! i \<le> 360 \<and>
         0 \<le> LSTmax (surveyPlan_init tiledata) ! i \<and> LSTmax (surveyPlan_init tiledata) ! i \<le> 360"
proof -
  let ?rows = "filter (\<lambda>r. fld_IN_DESI r = 1) tiledata"
  have i: "i < length ?rows"
    using assms(1) by (simp add: surveyPlan_init_def Let_def compress_map)
  have cols: "tileID (surveyPlan_init tiledata) ! i = fld_TILEID (?rows ! i)"
    "RA (surveyPlan_init tiledata) ! i = fld_RA (?rows ! i)"
    using i by (simp_all add: surveyPlan_init_def Let_def compress_map)
  have "0 \<le> wrap_lst (fld_RA (?rows ! i) + fld_HA (?rows ! i) - 15) \<and>
        wrap_lst (fld_RA (?rows ! i) + fld_HA (?rows ! i) - 15) \<le> 360"
    using assms(2,3) by (intro wrap_lst_closed) simp_all
  moreover have "0 \<le> wrap_lst (fld_RA (?rows ! i) + fld_HA (?rows ! i) + 15) \<and>
        wrap_lst (fld_RA (?rows ! i) + fld_HA (?rows ! i) + 15) \<le> 360"
    using assms(2,3) by (intro wrap_lst_closed) simp_all
  ultimately show ?thesis using i cols by (simp add: LSTmin_init LSTmax_init)
qed

theorem lst_window_closed_range_witness:
  "(0::nat) < length (tileID (surveyPlan_init [boundary_tile, example_tile 8 1000 0 ''DARK''])) \<and>
   fld_RA (filter (\<lambda>r. fld_IN_DESI r = 1) [boundary_tile, example_tile 8 1000 0 ''DARK''] ! 0)
     + fld_HA (filter (\<lambda>r. fld_IN_DESI r = 1) [boundary_tile, example_tile 8 1000 0 ''DARK''] ! 0)
     = 345 \<and>
   tileID (surveyPlan_init [boundary_tile, example_tile 8 1000 0 ''DARK'']) ! 0 = 7 \<and>
   LSTmin (surveyPlan_init [boundary_tile, example_tile 8 1000 0 ''DARK'']) ! 0 = 330 \<and>
   LSTmax (surveyPlan_init [boundary_tile, example_tile 8 1000 0 ''DARK'']) ! 0 = 360 \<and>
   LSTmax (surveyPlan_init [boundary_tile, example_tile 8 1000 0 ''DARK'']) ! 1 = 655"
proof -
  let ?cat = "[boundary_tile, example_tile 8 1000 0 ''DARK'']"
  have i: "(0::nat) < length (tileID (surveyPlan_init ?cat))"
    by (simp add: surveyPlan_init_def Let_def compress_Cons boundary_tile_def example_tile_def)
  have s: "fld_RA (filter (\<lambda>r. fld_IN_DESI r = 1) ?cat ! 0)
             + fld_HA (filter (\<lambda>r. fld_IN_DESI r = 1) ?cat ! 0) = 345"
    by (simp add: boundary_tile_def example_tile_def)
  have lo: "-345 \<le> fld_RA (filter (\<lambda>r. fld_IN_DESI r = 1) ?cat ! 0)
                    + fld_HA (filter (\<lambda>r. fld_IN_DESI r = 1) ?cat ! 0)"
    and hi: "fld_RA (filter (\<lambda>r. fld_IN_DESI r = 1) ?cat ! 0)
               + fld_HA (filter (\<lambda>r. fld_IN_DESI r = 1) ?cat ! 0) \<le> 705"
    unfolding s by simp_all
  have v: "LSTmin (surveyPlan_init ?cat) ! 0 = 330" "LSTmax (surveyPlan_init ?cat) ! 0 = 360"
    "LSTmax (surveyPlan_init ?cat) ! 1 = 655"
    by (simp_all add: LSTmin_init LSTmax_init boundary_tile_def example_tile_def wrap_lst_def)
  have t: "tileID (surveyPlan_init ?cat) ! 0 = 7"
    using lst_window_closed_range [OF i lo hi]
    by (simp add: boundary_tile_def example_tile_def)
  show ?thesis using i s v t by simp
qed

subsection \<open>The plan of a night\<close>

lemma plan_tuple_eq_eligible:
  "plan_tuple self i = plan_tuple self k \<Longrightarrow> eligible self i = eligible self k"
  by (simp add: plan_tuple_def eligible_def)

lemma set_planList0:
  "set (planList0 self) = plan_tuple self ` {i. i < length (tileID self) \<and> eligible self i}"
  by (auto simp: planList0_def)

lemma set_sorted_by_priority: "set (sorted_by_priority xs) = set xs"
  by (simp add: sorted_by_priority_def)

lemma plan_tuple_in_planList0:
  assumes "i < length (tileID self)"
  shows "plan_tuple self i \<in> set (planList0 self) \<longleftrightarrow> eligible self i"
proof
  assume "plan_tuple self i \<in> set (planList0 self)"
  then obtain k where k: "eligible self k" "plan_tuple self i = plan_tuple self k"
    unfolding set_planList0 by blast
  from plan_tuple_eq_eligible [OF k(2)] k(1) show "eligible self i" by simp
next
  assume "eligible self i"
  with assms have "i \<in> {i. i < length (tileID self) \<and> eligible self i}" by simp
  then show "plan_tuple self i \<in> set (planList0 self)"
    unfolding set_planList0 by (rule imageI)
qed

lemma eligible_unfold:
  "eligible self i \<longleftrightarrow>
     status self ! i < 2 \<and>
     (if program self ! i = ''DARK''
      then isItDark self (LSTmin self ! i) = ''DARK'' \<and> isItDark self (LSTmax self ! i) = ''DARK''
      else isItDark self (LSTmin self ! i) \<noteq> ''DARK'' \<or> isItDark self (LSTmax self ! i) \<noteq> ''DARK'')"
  by (auto simp: eligible_def)

lemma four_tile_plan_eq:
  "four_tile_plan =
     \<lparr> tileID = [1, 2, 3, 4], RA = [120, 300, 120, 170], DEC = [20, 20, 20, 20],
       Pass = [0, 0, 0, 0], Ebmv = [0.02, 0.02, 0.02, 0.02],
       maxExpLen = [2000, 2000, 2000, 2000], starDensity = [1000, 1000, 1000, 1000],
       program = [''DARK'', ''BRIGHT'', ''DARK'', ''DARK''], obsconds = [1, 1, 1, 1],
       LSTmin = [105, 285, 105, 155], LSTmax = [135, 315, 135, 185],
       status = [0, 0, 0, 0], priority = [4, 4, 4, 4], moonUp = ''BRIGHT'',
       LST_dark1_begin = -1, LST_dark1_end = -1, LST_dark2_begin = -1, LST_dark2_end = -1,
       LST_dark_begin = None, LST_dark_end = None \<rparr>"
  by (simp add: four_tile_plan_def surveyPlan_init_def Let_def example_tile_def compress_Cons
      wrap_lst_def dec_priority_def)

lemma example_state:
  "fst example_result =
     \<lparr> tileID = [1, 2, 3, 4], RA = [120, 300, 120, 170], DEC = [20, 20, 20, 20],
       Pass = [0, 0, 0, 0], Ebmv = [0.02, 0.02, 0.02, 0.02],
       maxExpLen = [2000, 2000, 2000, 2000], starDensity = [1000, 1000, 1000, 1000],
       program = [''DARK'', ''BRIGHT'', ''DARK'', ''DARK''], obsconds = [1, 1, 1, 1],
       LSTmin = [105, 285, 105, 155], LSTmax = [135, 315, 135, 185],
       status = [0, 0, 2, 0], priority = [4, 4, 4, 4], moonUp = ''BRIGHT'',
       LST_dark1_begin = 54, LST_dark1_end = 162, LST_dark2_begin = -1, LST_dark2_end = -1,
       LST_dark_begin = None, LST_dark_end = None \<rparr>"
  by (simp add: example_result_def afternoonPlan_def Let_def four_tile_plan_eq update_status_def
      update_entry_def example_log_def np_where_eq_def assign_at_def getDarkTimes_def
      dark_windows_def night_moon_rises_late_def night_no_moon_def example_mjd2lst_def
      example_radec2altaz_def)

text \<open>
  Claim C4: every entry of the plan that \<^verbatim>\<open>afternoonPlan\<close> produces is the tuple of a tile
  and has status below 2; and the tuple of a tile is in the plan exactly when its status
  is below 2 and, for a tile of the DARK program, \<^verbatim>\<open>isItDark\<close> is DARK at both \<open>LSTmin\<close>
  and \<open>LSTmax\<close>, for a tile of another program, \<^verbatim>\<open>isItDark\<close> is not DARK at one of the
  two at least. The darkness is that of the planner after the call.
\<close>

theorem afternoonPlan_eligibility:
  assumes "planner_wf self0"
    and "afternoonPlan mjd2lst radec2altaz self0 ds tiles_observed = (self, planList, todo)"
  shows "(\<forall>e \<in> set planList. pl_STATUS e < 2 \<and> (\<exists>i < length (tileID self). e = plan_tuple self i)) \<and>
         (\<forall>i < length (tileID self).
            plan_tuple self i \<in> set planList \<longleftrightarrow>
              status self ! i < 2 \<and>
              (if program self ! i = ''DARK''
               then isItDark self (LSTmin self ! i) = ''DARK'' \<and>
                    isItDark self (LSTmax self ! i) = ''DARK''
               else isItDark self (LSTmin self ! i) \<noteq> ''DARK'' \<or>
                    isItDark self (LSTmax self ! i) \<noteq> ''DARK''))"
proof -
  have pl: "planList = sorted_by_priority (planList0 self)"
    using assms(2) by (auto simp: afternoonPlan_def Let_def)
  have s: "set planList = plan_tuple self ` {i. i < length (tileID self) \<and> eligible self i}"
    by (simp add: pl set_sorted_by_priority set_planList0)
  have a: "\<forall>e \<in> set planList. pl_STATUS e < 2 \<and> (\<exists>i < length (tileID self). e = plan_tuple self i)"
  proof
    fix e assume "e \<in> set planList"
    then obtain i where i: "i < length (tileID self)" "eligible self i" "e = plan_tuple self i"
      using s by auto
    have "pl_STATUS e < 2" using i(2,3) by (simp add: eligible_def plan_tuple_def)
    with i show "pl_STATUS e < 2 \<and> (\<exists>i < length (tileID self). e = plan_tuple self i)" by blast
  qed
  have b: "plan_tuple self i \<in> set planList \<longleftrightarrow> eligible self i" if "i < length (tileID self)" for i
    using plan_tuple_in_planList0 [OF that] by (simp add: pl set_sorted_by_priority)
  show ?thesis using a b by (simp add: eligible_unfold)
qed

theorem afternoonPlan_eligibility_witness:
  "planner_wf four_tile_plan \<and>
   plan_tuple (fst example_result) 0 \<in> set (fst (snd example_result)) \<and>
   plan_tuple (fst example_result) 1 \<in> set (fst (snd example_result)) \<and>
   plan_tuple (fst example_result) 2 \<notin> set (fst (snd example_result)) \<and>
   plan_tuple (fst example_result) 3 \<notin> set (fst (snd example_result))"
proof -
  have wf: "planner_wf four_tile_plan"
    unfolding four_tile_plan_def by (rule planner_wf_init)
  have r: "afternoonPlan example_mjd2lst example_radec2altaz four_tile_plan
             night_moon_rises_late [example_log 3 2]
           = (fst example_result, fst (snd example_result), snd (snd example_result))"
    by (simp add: example_result_def)
  note th = afternoonPlan_eligibility [OF wf r]
  have n: "length (tileID (fst example_result)) = 4" by (simp add: example_state)
  have "plan_tuple (fst example_result) 0 \<in> set (fst (snd example_result))"
    using th n by (simp add: example_state isItDark_def)
  moreover have "plan_tuple (fst example_result) 1 \<in> set (fst (snd example_result))"
    using th n by (simp add: example_state isItDark_def)
  moreover have "plan_tuple (fst example_result) 2 \<notin> set (fst (snd example_result))"
    using th n by (simp add: example_state isItDark_def)
  moreover have "plan_tuple (fst example_result) 3 \<notin> set (fst (snd example_result))"
    using th n by (simp add: example_state isItDark_def)
  ultimately show ?thesis using wf by simp
qed

section \<open>Properties of the weather simulator\<close>

subsection \<open>Queries\<close>

lemma offset_of_round:
  "offset_of self t = round ((t - mjd (table self ! 0)) * of_int (steps_per_day self))"
  by (simp add: offset_of_def round_def)

lemma table_getitem_not_ValueError: "table_getitem tbl idx \<noteq> Inl ValueError"
  by (simp add: table_getitem_def)

lemma table_getitem_in_range:
  assumes "\<forall>i \<in> set_ndarray idx. 0 \<le> i \<and> i < int (length tbl)"
  shows "table_getitem tbl idx = Inr (map_ndarray (\<lambda>i. tbl ! nat i) idx)"
proof -
  have "\<not> (\<exists>i \<in> set_ndarray idx. i < - int (length tbl) \<or> int (length tbl) \<le> i)"
    using assms by fastforce
  moreover have "map_ndarray (\<lambda>i. tbl ! nat (if i < 0 then i + int (length tbl) else i)) idx
                 = map_ndarray (\<lambda>i. tbl ! nat i) idx"
    using assms by (intro ndarray.map_cong) auto
  ultimately show ?thesis by (simp add: table_getitem_def)
qed

lemma table_getitem_past_end:
  assumes "int (length tbl) \<in> set_ndarray idx"
  shows "table_getitem tbl idx = Inl IndexError"
  using assms by (auto simp: table_getitem_def)

lemma get_ValueError_iff:
  assumes "table self \<noteq> []"
  shows "get self time = Inl ValueError \<longleftrightarrow>
           (\<exists>t \<in> set_ndarray time. offset_of self t < 0 \<or> offset_of self t > int (length (table self)))"
  using assms
  by (auto simp: get_def Let_def ndarray.set_map table_getitem_not_ValueError)

lemma get_in_range:
  assumes "table self \<noteq> []"
    and "\<forall>t \<in> set_ndarray time. 0 \<le> offset_of self t \<and> offset_of self t < int (length (table self))"
  shows "get self time = Inr (map_ndarray (\<lambda>t. table self ! nat (offset_of self t)) time)"
proof -
  let ?offs = "map_ndarray (offset_of self) time"
  have r: "\<forall>i \<in> set_ndarray ?offs. 0 \<le> i \<and> i < int (length (table self))"
    using assms(2) by (simp add: ndarray.set_map)
  then have ok: "\<not> ((\<exists>i \<in> set_ndarray ?offs. i < 0) \<or>
                   (\<exists>i \<in> set_ndarray ?offs. i > int (length (table self))))"
    by fastforce
  have "get self time = table_getitem (table self) ?offs"
    using assms(1) ok by (simp add: get_def Let_def)
  also have "\<dots> = Inr (map_ndarray (\<lambda>i. table self ! nat i) ?offs)"
    using r by (rule table_getitem_in_range)
  finally show ?thesis by (simp add: ndarray.map_comp comp_def)
qed

lemma get_at_length:
  assumes "table self \<noteq> []"
    and "\<forall>t \<in> set_ndarray time. 0 \<le> offset_of self t \<and> offset_of self t \<le> int (length (table self))"
    and "\<exists>t \<in> set_ndarray time. offset_of self t = int (length (table self))"
  shows "get self time = Inl IndexError"
proof -
  let ?offs = "map_ndarray (offset_of self) time"
  have ok: "\<not> ((\<exists>i \<in> set_ndarray ?offs. i < 0) \<or>
                   (\<exists>i \<in> set_ndarray ?offs. i > int (length (table self))))"
    using assms(2) by (fastforce simp: ndarray.set_map)
  have "int (length (table self)) \<in> set_ndarray ?offs"
    using assms(3) by (force simp: ndarray.set_map)
  then have "table_getitem (table self) ?offs = Inl IndexError"
    by (rule table_getitem_past_end)
  then show ?thesis using assms(1) ok by (simp add: get_def Let_def)
qed

lemma get_scalar_at_length:
  assumes "table self \<noteq> []" and "offset_of self t = int (length (table self))"
  shows "get self (Scalar t) = Inl IndexError"
  using assms by (intro get_at_length) simp_all

lemma offset_of_near_grid:
  assumes spd: "0 < steps_per_day self"
    and grid: "mjd (table self ! i) = mjd (table self ! 0) + real i / of_int (steps_per_day self)"
    and near: "\<bar>t - mjd (table self ! i)\<bar> < 1 / (2 * of_int (steps_per_day self))"
  shows "offset_of self t = int i"
proof -
  define s :: real where "s = of_int (steps_per_day self)"
  define d where "d = t - mjd (table self ! i)"
  have s: "0 < s" using spd by (simp add: s_def)
  have "\<bar>d\<bar> * s < 1 / (2 * s) * s"
    using near s by (intro mult_strict_right_mono) (simp_all add: d_def s_def)
  then have ds: "\<bar>d * s\<bar> < 1 / 2" using s by (simp add: abs_mult)
  have "(t - mjd (table self ! 0)) * s = (d + real i / s) * s"
    using grid by (simp add: d_def s_def)
  also have "\<dots> = d * s + real i" using s by (simp add: distrib_right)
  finally have e: "(t - mjd (table self ! 0)) * s + 0.5 = real_of_int (int i) + (d * s + 1 / 2)"
    by simp
  have "\<lfloor>real_of_int (int i) + (d * s + 1 / 2)\<rfloor> = int i"
    using ds by (subst floor_add_int [symmetric] floor_unique)
       (auto simp: floor_eq_iff abs_less_iff)
  then show ?thesis unfolding offset_of_def s_def [symmetric] e .
qed

lemma example_weather_simps:
  "table example_weather \<noteq> []" "length (table example_weather) = 2"
  "steps_per_day example_weather = 2"
  "mjd (table example_weather ! 0) = 58849.5"
  by (simp_all add: example_weather_def)

lemma example_offset_at_length:
  "offset_of example_weather 58850.5 = int (length (table example_weather))"
  by (simp add: offset_of_def example_weather_def)

text \<open>
  Claim C5 says that \<^verbatim>\<open>get\<close> raises the range error exactly when an index is outside 0 to
  the length of the table, both included, and otherwise returns the row at that index. In
  the table of two rows, the time 58850.5 has index 2, the length of the table: the range
  check passes, and no row is returned (the lookup raises \<^verbatim>\<open>IndexError\<close>).
\<close>

theorem get_index_at_length_counterexample:
  "offset_of example_weather 58850.5 = 2 \<and> length (table example_weather) = 2 \<and>
   get example_weather (Scalar 58850.5) = Inl IndexError"
proof -
  have "get example_weather (Scalar 58850.5) = Inl IndexError"
    by (rule get_scalar_at_length [OF example_weather_simps(1) example_offset_at_length])
  then show ?thesis using example_offset_at_length by (simp add: example_weather_simps)
qed

text \<open>
  Claim C5, amended: for a table that is not empty, the index of a time is
  \<open>round ((t - mjd[0]) * steps_per_day)\<close>; \<^verbatim>\<open>get\<close> raises \<^verbatim>\<open>ValueError\<close> exactly when the index
  of one of the times is below 0 or above the length of the table; when all the indices
  are at least 0 and below the length, it returns the rows at these indices, without
  interpolation, in the shape of the query (one row for one time, a batch of rows in the
  order of a batch of times); and when the table has a positive number of steps a day and
  row \<open>i\<close> carries \<open>mjd[0] + i / steps_per_day\<close>, a time less than half a step away from
  that value gets row \<open>i\<close>. What happens at an index equal to the length is left out.
\<close>

theorem get_nearest_row:
  assumes "table self \<noteq> []"
  shows "offset_of self t = round ((t - mjd (table self ! 0)) * of_int (steps_per_day self)) \<and>
         (get self time = Inl ValueError \<longleftrightarrow>
            (\<exists>t \<in> set_ndarray time. offset_of self t < 0 \<or>
                                     offset_of self t > int (length (table self)))) \<and>
         ((\<forall>t \<in> set_ndarray time. 0 \<le> offset_of self t \<and>
                                   offset_of self t < int (length (table self))) \<longrightarrow>
            get self time = Inr (map_ndarray (\<lambda>t. table self ! nat (offset_of self t)) time)) \<and>
         (0 < steps_per_day self \<and> i < length (table self) \<and>
          mjd (table self ! i) = mjd (table self ! 0) + real i / of_int (steps_per_day self) \<and>
          \<bar>t - mjd (table self ! i)\<bar> < 1 / (2 * of_int (steps_per_day self)) \<longrightarrow>
            get self (Scalar t) = Inr (Scalar (table self ! i)))"
proof -
  have near: "get self (Scalar t) = Inr (Scalar (table self ! i))"
    if "0 < steps_per_day self" "i < length (table self)"
      "mjd (table self ! i) = mjd (table self ! 0) + real i / of_int (steps_per_day self)"
      "\<bar>t - mjd (table self ! i)\<bar> < 1 / (2 * of_int (steps_per_day self))"
  proof -
    have o: "offset_of self t = int i" using that(1,3,4) by (rule offset_of_near_grid)
    have "get self (Scalar t)
            = Inr (map_ndarray (\<lambda>t. table self ! nat (offset_of self t)) (Scalar t))"
      using assms that(2) by (intro get_in_range) (simp_all add: o)
    then show ?thesis by (simp add: o)
  qed
  show ?thesis
    using offset_of_round get_ValueError_iff [OF assms] get_in_range [OF assms] near
    by blast
qed

theorem get_nearest_row_witness:
  "table example_weather \<noteq> [] \<and>
   get example_weather (Array [58849.6, 58850.1]) = Inr (Array (table example_weather)) \<and>
   get example_weather (Scalar 58850.1) = Inr (Scalar (table example_weather ! 1)) \<and>
   get example_weather (Scalar 58849) = Inl ValueError"
proof -
  note ne = example_weather_simps(1)
  have o: "offset_of example_weather 58849.6 = 0" "offset_of example_weather 58850.1 = 1"
    "offset_of example_weather 58849 = -1"
    by (simp_all add: offset_of_def example_weather_def)
  have r: "\<forall>t \<in> set_ndarray (Array [58849.6, 58850.1]).
             0 \<le> offset_of example_weather t \<and>
             offset_of example_weather t < int (length (table example_weather))"
    using o by (simp add: example_weather_simps)
  have "get example_weather (Array [58849.6, 58850.1])
          = Inr (map_ndarray (\<lambda>t. table example_weather ! nat (offset_of example_weather t))
                  (Array [58849.6, 58850.1]))"
    using get_nearest_row [OF ne, where time = "Array [58849.6, 58850.1]"] r by blast
  then have a: "get example_weather (Array [58849.6, 58850.1]) = Inr (Array (table example_weather))"
    using o by (simp add: example_weather_def)
  have g: "0 < steps_per_day example_weather \<and> 1 < length (table example_weather) \<and>
           mjd (table example_weather ! 1)
             = mjd (table example_weather ! 0) + real 1 / of_int (steps_per_day example_weather) \<and>
           \<bar>58850.1 - mjd (table example_weather ! 1)\<bar>
             < 1 / (2 * of_int (steps_per_day example_weather))"
    by (simp add: example_weather_def)
  have b: "get example_weather (Scalar 58850.1) = Inr (Scalar (table example_weather ! 1))"
    using get_nearest_row [OF ne, where t = "58850.1" and i = 1] g by blast
  have v: "\<exists>t \<in> set_ndarray (Scalar 58849). offset_of example_weather t < 0 \<or>
             offset_of example_weather t > int (length (table example_weather))"
    using o(3) by (intro bexI [of _ 58849]) simp_all
  have c: "get example_weather (Scalar 58849) = Inl ValueError"
    using get_nearest_row [OF ne, where time = "Scalar 58849"] v by blast
  show ?thesis using ne a b c by simp
qed

text \<open>
  Claim C9: for a table that is not empty, the range check of \<^verbatim>\<open>get\<close> rejects exactly the
  indices below 0 or above the length of the table; a time whose index is the length of
  the table passes it, and the row lookup that follows then fails with \<^verbatim>\<open>IndexError\<close>;
  and when the number of steps a day is positive there is such a time, \<open>mjd[0] + length /
  steps_per_day\<close>.
\<close>

theorem get_range_check_admits_length:
  assumes "table self \<noteq> []"
  shows "(get self time = Inl ValueError \<longleftrightarrow>
            (\<exists>t \<in> set_ndarray time. offset_of self t < 0 \<or>
                                     offset_of self t > int (length (table self)))) \<and>
         (offset_of self t = int (length (table self)) \<longrightarrow>
            get self (Scalar t) \<noteq> Inl ValueError \<and>
            table_getitem (table self) (Scalar (offset_of self t)) = Inl IndexError \<and>
            get self (Scalar t) = Inl IndexError) \<and>
         (0 < steps_per_day self \<longrightarrow>
            offset_of self
              (mjd (table self ! 0) + real (length (table self)) / of_int (steps_per_day self))
              = int (length (table self)))"
proof -
  have a: "get self (Scalar t) = Inl IndexError \<and>
           table_getitem (table self) (Scalar (offset_of self t)) = Inl IndexError"
    if "offset_of self t = int (length (table self))"
  proof -
    have "get self (Scalar t) = Inl IndexError"
      using assms that by (intro get_at_length) simp_all
    moreover have "table_getitem (table self) (Scalar (offset_of self t)) = Inl IndexError"
      using that by (intro table_getitem_past_end) simp
    ultimately show ?thesis by simp
  qed
  have b: "offset_of self
             (mjd (table self ! 0) + real (length (table self)) / of_int (steps_per_day self))
           = int (length (table self))"
    if "0 < steps_per_day self"
    using that by (simp add: offset_of_def)
  show ?thesis using get_ValueError_iff [OF assms] a b by auto
qed

theorem get_range_check_admits_length_witness:
  "table example_weather \<noteq> [] \<and>
   offset_of example_weather 58850.5 = int (length (table example_weather)) \<and>
   get example_weather (Scalar 58850.5) \<noteq> Inl ValueError \<and>
   table_getitem (table example_weather) (Scalar (offset_of example_weather 58850.5))
     = Inl IndexError"
proof -
  note ne = example_weather_simps(1)
  note o = example_offset_at_length
  show ?thesis
    using get_range_check_admits_length [OF ne, where t = "58850.5"] o ne
    by blast
qed

subsection \<open>The constructor\<close>

lemma allclose_one_pos:
  assumes "0 < ts" and "allclose (of_int n * ts) 1"
  shows "0 < n"
proof -
  have "\<bar>of_int n * ts - 1\<bar> \<le> 1 / 10 ^ 8 + 1 / 10 ^ 5 * \<bar>1::real\<bar>"
    using assms(2) unfolding allclose_def .
  then have "\<bar>of_int n * ts - 1\<bar> \<le> 1 / 2" by simp
  then have "0 < of_int n * ts" by linarith
  then have "0 < (of_int n :: real)" using assms(1) by (simp add: zero_less_mult_iff)
  then show ?thesis by simp
qed

lemma Weather_generate_error:
  assumes "0 < time_step"
    and "((case stop_date0 of None \<Rightarrow> last_day env | Some d \<Rightarrow> d)
            - (case start_date0 of None \<Rightarrow> first_day env | Some d \<Rightarrow> d)) \<le> 0 \<or>
         \<not> allclose (of_int (py_round (1 / time_step)) * time_step) 1"
  shows "Weather_generate env start_date0 stop_date0 time_step gen0 = Inl ValueError"
  using assms by (auto simp: Weather_generate_def Let_def)

lemma Weather_generate_ok:
  assumes "0 < time_step"
    and nn: "0 < ((case stop_date0 of None \<Rightarrow> last_day env | Some d \<Rightarrow> d)
            - (case start_date0 of None \<Rightarrow> first_day env | Some d \<Rightarrow> d))"
    and ac: "allclose (of_int (py_round (1 / time_step)) * time_step) 1"
  shows "\<exists>w. Weather_generate env start_date0 stop_date0 time_step gen0 = Inr w \<and>
             num_nights w = ((case stop_date0 of None \<Rightarrow> last_day env | Some d \<Rightarrow> d)
            - (case start_date0 of None \<Rightarrow> first_day env | Some d \<Rightarrow> d)) \<and>
             steps_per_day w = py_round (1 / time_step) \<and>
             length (table w) = nat (num_nights w * steps_per_day w)"
proof -
  have spd: "0 < py_round (1 / time_step)" using assms(1) ac by (rule allclose_one_pos)
  have rows: "\<not> ((case stop_date0 of None \<Rightarrow> last_day env | Some d \<Rightarrow> d)
            - (case start_date0 of None \<Rightarrow> first_day env | Some d \<Rightarrow> d)) * py_round (1 / time_step) < 0"
    using nn spd by (simp add: mult_less_0_iff)
  show ?thesis
    using assms(1) rows nn ac
    by (simp add: Weather_generate_def Let_def split: prod.splits)
qed

text \<open>
  Claim C7 says that the constructor in generate mode raises a \<^verbatim>\<open>ValueError\<close> exactly when
  the number of nights is not positive or the rounded number of steps a day does not give
  back one day within the tolerance. With a time step of minus five minutes and one night,
  the number of steps a day is -288, the tolerance test passes, and the constructor raises
  \<^verbatim>\<open>ValueError\<close> all the same, when it asks numpy for -288 rows.
\<close>

theorem Weather_init_negative_step_counterexample:
  "Weather_init example_env (Some 737425) (Some 737426) (- (1 / 288)) (Some 0) None
     = Inl ValueError \<and>
   \<not> (737426 - 737425 \<le> (0::int)) \<and>
   allclose (of_int (py_round (1 / (- (1 / 288)))) * (- (1 / 288))) 1"
proof -
  have r: "py_round (1 / (- (1 / 288))) = -288" by (simp add: py_round_def)
  have a: "allclose (of_int (py_round (1 / (- (1 / 288)))) * (- (1 / 288))) 1"
    unfolding r by (simp add: allclose_def)
  have "Weather_init example_env (Some 737425) (Some 737426) (- (1 / 288)) (Some 0) None
          = Inl ValueError"
    using a r by (simp add: Weather_init_def Weather_generate_def Let_def)
  with a show ?thesis by simp
qed

text \<open>
  Claim C7, amended: for a positive time step, the constructor in generate mode raises
  \<^verbatim>\<open>ValueError\<close> exactly when the number of nights is not positive or the rounded number of
  steps a day, times the time step, is not one day within the tolerance of \<^verbatim>\<open>np.allclose\<close>;
  the error carries no object and no table; and when it does not raise, it returns an
  object with these numbers of nights and of steps a day and a table of their product of
  rows.
\<close>

theorem Weather_init_ValueError_iff:
  assumes "0 < time_step"
  shows "(Weather_init env start_date0 stop_date0 time_step gen0 None = Inl ValueError \<longleftrightarrow>
            (case stop_date0 of None \<Rightarrow> last_day env | Some d \<Rightarrow> d)
              - (case start_date0 of None \<Rightarrow> first_day env | Some d \<Rightarrow> d) \<le> 0 \<or>
            \<not> allclose (of_int (py_round (1 / time_step)) * time_step) 1) \<and>
         (Weather_init env start_date0 stop_date0 time_step gen0 None \<noteq> Inl ValueError \<longrightarrow>
            (\<exists>w. Weather_init env start_date0 stop_date0 time_step gen0 None = Inr w \<and>
                 num_nights w = (case stop_date0 of None \<Rightarrow> last_day env | Some d \<Rightarrow> d)
                                  - (case start_date0 of None \<Rightarrow> first_day env | Some d \<Rightarrow> d) \<and>
                 steps_per_day w = py_round (1 / time_step) \<and>
                 length (table w) = nat (num_nights w * steps_per_day w)))"
proof (cases "((case stop_date0 of None \<Rightarrow> last_day env | Some d \<Rightarrow> d)
            - (case start_date0 of None \<Rightarrow> first_day env | Some d \<Rightarrow> d)) \<le> 0 \<or>
         \<not> allclose (of_int (py_round (1 / time_step)) * time_step) 1")
  case True
  from Weather_generate_error [OF assms True, of gen0] True show ?thesis
    by (simp add: Weather_init_def)
next
  case False
  then have nn: "0 < ((case stop_date0 of None \<Rightarrow> last_day env | Some d \<Rightarrow> d)
            - (case start_date0 of None \<Rightarrow> first_day env | Some d \<Rightarrow> d))"
    and ac: "allclose (of_int (py_round (1 / time_step)) * time_step) 1"
    by auto
  from Weather_generate_ok [OF assms nn ac, of gen0] False show ?thesis
    by (auto simp: Weather_init_def)
qed

theorem Weather_init_ValueError_iff_witness:
  "(0::real) < 1 / 288 \<and> (0::real) < 7 / 1440 \<and>
   Weather_init example_env (Some 737425) (Some 737426) (1 / 288) (Some 0) None \<noteq> Inl ValueError \<and>
   Weather_init example_env (Some 737425) (Some 737426) (7 / 1440) (Some 0) None = Inl ValueError \<and>
   Weather_init example_env (Some 737426) (Some 737426) (1 / 288) (Some 0) None = Inl ValueError"
proof -
  have p: "(0::real) < 1 / 288" "(0::real) < 7 / 1440" by simp_all
  have r: "py_round (1 / (1 / 288)) = 288" "py_round (1 / (7 / 1440)) = 206"
    by (simp_all add: py_round_def)
  have a: "allclose (of_int (py_round (1 / (1 / 288))) * (1 / 288)) 1"
          "\<not> allclose (of_int (py_round (1 / (7 / 1440))) * (7 / 1440)) 1"
    unfolding r by (simp_all add: allclose_def)
  have "Weather_init example_env (Some 737425) (Some 737426) (1 / 288) (Some 0) None \<noteq> Inl ValueError"
    using Weather_init_ValueError_iff [OF p(1), of example_env "Some 737425" "Some 737426" "Some 0"] a(1)
    by simp
  moreover have "Weather_init example_env (Some 737425) (Some 737426) (7 / 1440) (Some 0) None = Inl ValueError"
    using Weather_init_ValueError_iff [OF p(2), of example_env "Some 737425" "Some 737426" "Some 0"] a(2)
    by simp
  moreover have "Weather_init example_env (Some 737426) (Some 737426) (1 / 288) (Some 0) None = Inl ValueError"
    using Weather_init_ValueError_iff [OF p(1), of example_env "Some 737426" "Some 737426" "Some 0"]
    by simp
  ultimately show ?thesis by simp
qed

end
